theory Spec2Isabelle
  imports Complex_Main
begin

section \<open>Dates and the cycle clock\<close>

text \<open>
  A JavaScript \<open>Date\<close> is represented by its time value: the number of milliseconds
  since 1970-01-01T00:00:00Z, an integer. The clock (\<open>new Date()\<close>) is the parameter
  \<open>now\<close> of every function that reads it, and the local time zone of the browser is the
  parameter \<open>z\<close> of every function that reads or sets local fields of a date.

  A calendar-date string \<open>YYYY-MM-DD\<close> is represented by the day it denotes, counted in
  days since 1970-01-01 (type \<open>isodate\<close>): \<open>new Date(s)\<close> of such a string is midnight UTC
  of that day, and \<open>toISOString().split('T')[0]\<close> is the UTC day of the time value.
\<close>

type_synonym date = int
type_synonym isodate = int

definition MS_PER_DAY :: int where
  "MS_PER_DAY = 1000 * 60 * 60 * 24"

definition CYCLE_LENGTH_WEEKS :: int where
  "CYCLE_LENGTH_WEEKS = 12"

text \<open>\<open>new Date('2024-01-01')\<close>: day 19723 after the epoch, a Monday, at 00:00 UTC.\<close>

definition REFERENCE_DATE :: date where
  "REFERENCE_DATE = 19723 * (1000 * 60 * 60 * 24)"

text \<open>The remainder operator \<open>%\<close> of JavaScript takes the sign of the dividend.\<close>

definition js_rem :: "int \<Rightarrow> int \<Rightarrow> int" where
  "js_rem a b = sgn a * (\<bar>a\<bar> mod \<bar>b\<bar>)"

definition getCurrentWeekInCycle :: "date \<Rightarrow> int" where
  "getCurrentWeekInCycle now =
     (let today = now;
          diffTime = \<bar>today - REFERENCE_DATE\<bar>;
          diffWeeks = diffTime div (1000 * 60 * 60 * 24 * 7)
      in js_rem diffWeeks CYCLE_LENGTH_WEEKS + 1)"

text \<open>
  A time zone gives the offset of local time from UTC, in milliseconds, in two ways, as
  the abstract operation \<open>LocalTZA(t, isUTC)\<close> of the language does: the offset in force at
  a UTC instant, and the offset by which a local time value is read, which at a local
  time that a transition skips or repeats is the offset before the transition.
  \<open>LocalTime\<close> and \<open>UTC\<close> are the two conversions of the language.
\<close>

record zone =
  offsetAtUTC :: "date \<Rightarrow> int"
  offsetAtLocal :: "int \<Rightarrow> int"

definition LocalTime :: "zone \<Rightarrow> date \<Rightarrow> int" where
  "LocalTime z t = t + offsetAtUTC z t"

definition UTC :: "zone \<Rightarrow> int \<Rightarrow> date" where
  "UTC z lt = lt - offsetAtLocal z lt"

text \<open>
  \<open>d.setDate(d.getDate() + k)\<close> moves the local date by \<open>k\<close> calendar days and keeps the
  local time of day; \<open>d.setHours(0, 0, 0, 0)\<close> is the local midnight of the local day;
  \<open>d.getDay()\<close> is the day of the week of the local day (1970-01-01 was a Thursday).
\<close>

definition addDays :: "zone \<Rightarrow> date \<Rightarrow> int \<Rightarrow> date" where
  "addDays z d k = UTC z (LocalTime z d + k * MS_PER_DAY)"

definition setHours0 :: "zone \<Rightarrow> date \<Rightarrow> date" where
  "setHours0 z d = (let lt = LocalTime z d in UTC z (lt - lt mod MS_PER_DAY))"

definition getDay :: "zone \<Rightarrow> date \<Rightarrow> int" where
  "getDay z d = (LocalTime z d div MS_PER_DAY + 4) mod 7"

text \<open>
  A zone at a fixed offset from UTC, and Europe/London in 2023 and 2024: British Summer
  Time, one hour ahead, from 01:00 UTC on 26 March 2023 (day 19442) to 01:00 UTC on
  29 October 2023 (day 19659), and from 01:00 UTC on 31 March 2024 (day 19813) to
  01:00 UTC on 27 October 2024 (day 20023); read from local time, from 02:00 to 02:00
  on these days.
\<close>

definition fixed_zone :: "int \<Rightarrow> zone" where
  "fixed_zone tz = \<lparr>offsetAtUTC = (\<lambda>t. tz), offsetAtLocal = (\<lambda>lt. tz)\<rparr>"

definition london :: zone where
  "london =
     \<lparr>offsetAtUTC = (\<lambda>t.
        if (19442 * 86400000 + 3600000 \<le> t \<and> t < 19659 * 86400000 + 3600000) \<or>
           (19813 * 86400000 + 3600000 \<le> t \<and> t < 20023 * 86400000 + 3600000)
        then 3600000 else 0),
      offsetAtLocal = (\<lambda>lt.
        if (19442 * 86400000 + 7200000 \<le> lt \<and> lt < 19659 * 86400000 + 7200000) \<or>
           (19813 * 86400000 + 7200000 \<le> lt \<and> lt < 20023 * 86400000 + 7200000)
        then 3600000 else 0)\<rparr>"

definition parseDate :: "isodate \<Rightarrow> date" where
  "parseDate s = s * MS_PER_DAY"

definition toISODate :: "date \<Rightarrow> isodate" where
  "toISODate d = d div MS_PER_DAY"

section \<open>The schedule and the occurrences of a task\<close>

text \<open>
  \<open>schedule.json\<close>: the daily tasks and the rotation \<open>twelve_week_schedule\<close>, an object
  keyed \<open>week_1\<close> \<open>\<dots>\<close> \<open>week_12\<close> whose values are objects keyed by day name. An object is
  an association list in the order of its keys (\<open>Object.keys\<close>), read with \<open>map_of\<close>.
  \<open>schedule\<close> is \<open>null\<close> (here \<open>None\<close>) until the file has been loaded.
\<close>

record task =
  name :: string
  location :: string
  minutes :: "nat option"
  how_often :: string

type_synonym week_schedule = "(string \<times> task list) list"

record schedule =
  daily_tasks :: "task list"
  twelve_week_schedule :: "(string \<times> week_schedule) list"

text \<open>
  An occurrence is \<open>{ type: 'daily', frequency: 'Daily' }\<close> or
  \<open>{ type: 'weekly', week, dayName, dayOfWeek }\<close>. A daily occurrence has no week and no
  day of the week; the list that \<open>findTaskOccurrences\<close> returns is either the single
  daily occurrence or made of weekly ones (lemma \<open>findTaskOccurrences_shape\<close> below), and
  these fields are read on weekly occurrences only.
\<close>

datatype occurrence =
    Daily
  | Weekly (week: int) (dayName: string) (dayOfWeek: int)

definition daysOfWeek :: "string list" where
  "daysOfWeek = [''Sunday'', ''Monday'', ''Tuesday'', ''Wednesday'', ''Thursday'',
     ''Friday'', ''Saturday'']"

text \<open>\<open>Array.prototype.indexOf\<close>: the first index of the element, or -1.\<close>

fun indexOf_from :: "'a list \<Rightarrow> 'a \<Rightarrow> int \<Rightarrow> int" where
  "indexOf_from [] x i = - 1"
| "indexOf_from (y # ys) x i = (if y = x then i else indexOf_from ys x (i + 1))"

definition indexOf :: "'a list \<Rightarrow> 'a \<Rightarrow> int" where
  "indexOf xs x = indexOf_from xs x 0"

text \<open>\<open>Array.prototype.some\<close>.\<close>

definition some :: "('a \<Rightarrow> bool) \<Rightarrow> 'a list \<Rightarrow> bool" where
  "some p xs = list_ex p xs"

text \<open>The decimal numeral of a week number, for the template literal \<open>week_${weekNum}\<close>.\<close>

definition digit_char :: "nat \<Rightarrow> char" where
  "digit_char n = ''0123456789'' ! (n mod 10)"

function decimal :: "nat \<Rightarrow> string" where
  "decimal n = (if n < 10 then [digit_char n] else decimal (n div 10) @ [digit_char n])"
  by pat_completeness auto
termination
  by (relation "measure id") auto

declare decimal.simps [simp del]

definition weekKey :: "int \<Rightarrow> string" where
  "weekKey weekNum = ''week_'' @ decimal (nat weekNum)"

text \<open>The body of \<open>Object.keys(week).forEach\<close> for one week of the rotation.\<close>

definition week_occurrences :: "string \<Rightarrow> int \<Rightarrow> week_schedule \<Rightarrow> occurrence list" where
  "week_occurrences taskName weekNum wk =
     concat (map (\<lambda>dayName'.
        case map_of wk dayName' of
          None \<Rightarrow> []
        | Some tasks \<Rightarrow>
            (let taskExists = some (\<lambda>t. name t = taskName) tasks
             in if taskExists
                then [Weekly weekNum dayName' (indexOf daysOfWeek dayName')]
                else []))
       (map fst wk))"

definition findTaskOccurrences :: "schedule option \<Rightarrow> string \<Rightarrow> occurrence list" where
  "findTaskOccurrences sched taskName =
     (case sched of
        None \<Rightarrow> []
      | Some sch \<Rightarrow>
          (let isDailyTask = some (\<lambda>t. name t = taskName) (daily_tasks sch)
           in if isDailyTask then [Daily]
              else concat (map (\<lambda>weekNum.
                     case map_of (twelve_week_schedule sch) (weekKey weekNum) of
                       None \<Rightarrow> []
                     | Some wk \<Rightarrow> week_occurrences taskName weekNum wk)
                   [1..12])))"

section \<open>The next scheduled date of a task\<close>

text \<open>
  The argument of \<open>getNextScheduledDate\<close> is an entry of the history view: the name of
  the task, its frequency label and \<open>history[name]?.lastCompleted || null\<close>. The result
  is the object \<open>{ text, overdue }\<close> (the field \<open>text\<close> is \<open>text'\<close> here).

  \<open>Date.prototype.toLocaleDateString('en-GB', options)\<close> is a parameter; the three
  option objects that the function passes are the values of \<open>date_options\<close>.
\<close>

record history_task =
  task_name :: string
  howOften :: string
  lastCompleted :: "isodate option"

record scheduled =
  text' :: string
  overdue :: bool

datatype date_options = MonthDay | MonthDayYear | WeekdayLong

text \<open>\<open>Math.round\<close>: the nearest integer, a half going up. \<open>Math.floor\<close> of a quotient
  of integers is \<open>div\<close>, which rounds down.\<close>

definition Math_round :: "real \<Rightarrow> int" where
  "Math_round x = \<lfloor>x + 1 / 2\<rfloor>"

text \<open>The body of \<open>occurrences.forEach\<close>: the date pushed for one occurrence.\<close>

definition nextOccurrence :: "zone \<Rightarrow> date \<Rightarrow> int \<Rightarrow> occurrence \<Rightarrow> date" where
  "nextOccurrence z today currentWeek occ =
     (let weeksUntil = js_rem (week occ - currentWeek + 12) 12;
          checkDate = today;
          checkDate = addDays z checkDate (- getDay z checkDate + dayOfWeek occ);
          checkDate = (if checkDate \<le> today then addDays z checkDate 7 else checkDate);
          checkDate = (if weeksUntil > 0 then addDays z checkDate (weeksUntil * 7)
                       else checkDate)
      in checkDate)"

definition nextOccurrences :: "zone \<Rightarrow> date \<Rightarrow> occurrence list \<Rightarrow> date list" where
  "nextOccurrences z now occurrences =
     sort (map (nextOccurrence z (setHours0 z now) (getCurrentWeekInCycle now)) occurrences)"

definition daysSinceCompletion :: "zone \<Rightarrow> date \<Rightarrow> isodate \<Rightarrow> int" where
  "daysSinceCompletion z now lc =
     (let today = setHours0 z now;
          lastCompleted' = setHours0 z (parseDate lc)
      in (today - lastCompleted') div (1000 * 60 * 60 * 24))"

definition isOverdue :: "zone \<Rightarrow> date \<Rightarrow> occurrence list \<Rightarrow> isodate option \<Rightarrow> bool" where
  "isOverdue z now occurrences lc =
     (case lc of
        None \<Rightarrow> False
      | Some c \<Rightarrow>
          (let expectedFrequencyDays = Math_round ((12 * 7) / real (length occurrences))
           in daysSinceCompletion z now c > expectedFrequencyDays + 3))"

definition diffDays :: "zone \<Rightarrow> date \<Rightarrow> date \<Rightarrow> int" where
  "diffDays z now nextDate = (nextDate - setHours0 z now) div (1000 * 60 * 60 * 24)"

definition formatResult ::
  "(date_options \<Rightarrow> date \<Rightarrow> string) \<Rightarrow> zone \<Rightarrow> date \<Rightarrow> date \<Rightarrow> bool \<Rightarrow> scheduled" where
  "formatResult toLocaleDateString z now nextDate isOverdue' =
     (let dateStr = toLocaleDateString MonthDayYear nextDate
      in if diffDays z now nextDate = 0 then \<lparr>text' = ''Due today'', overdue = isOverdue'\<rparr>
         else if diffDays z now nextDate = 1
           then \<lparr>text' = ''Tomorrow ('' @ dateStr @ '')'', overdue = isOverdue'\<rparr>
         else if diffDays z now nextDate \<le> 7
           then \<lparr>text' = toLocaleDateString WeekdayLong nextDate @ '' ('' @ dateStr @ '')'',
                 overdue = isOverdue'\<rparr>
         else \<lparr>text' = dateStr, overdue = isOverdue'\<rparr>)"

definition getNextScheduledDate ::
  "(date_options \<Rightarrow> date \<Rightarrow> string) \<Rightarrow> zone \<Rightarrow> schedule option \<Rightarrow> date \<Rightarrow> history_task
     \<Rightarrow> scheduled" where
  "getNextScheduledDate toLocaleDateString z sched now t =
     (let today = setHours0 z now;
          occurrences = findTaskOccurrences sched (task_name t)
      in case occurrences of
           [] \<Rightarrow>
             (if lastCompleted t \<noteq> None then \<lparr>text' = ''As needed'', overdue = False\<rparr>
              else \<lparr>text' = ''Not scheduled'', overdue = False\<rparr>)
         | Daily # _ \<Rightarrow>
             (let nextDate = addDays z today 1;
                  dateStr = toLocaleDateString MonthDay nextDate
              in \<lparr>text' = ''Tomorrow ('' @ dateStr @ '')'', overdue = False\<rparr>)
         | Weekly _ _ _ # _ \<Rightarrow>
             (let nextDate = hd (nextOccurrences z now occurrences)
              in formatResult toLocaleDateString z now nextDate
                   (isOverdue z now occurrences (lastCompleted t))))"

section \<open>The history store and the task-state store\<close>

text \<open>
  The state that the storage functions read and write: whether the Firestore handle
  \<open>db\<close> is set, the document \<open>taskHistory/shared\<close> (\<open>None\<close> when it does not exist), the
  collection \<open>taskStates\<close> keyed by date string, the browser's \<open>localStorage\<close>, and the
  checked state of the \<open>.task-checkbox\<close> elements of the page by their \<open>data-task-id\<close>.
  Whether a call to the remote store succeeds is an input of each function
  (\<open>get_ok\<close>, \<open>set_ok\<close>); \<open>JSON.parse\<close> and \<open>JSON.stringify\<close> are parameters, and
  \<open>JSON.parse\<close> returns \<open>None\<close> where it throws a \<open>SyntaxError\<close>.
\<close>

definition STORAGE_KEY :: string where
  "STORAGE_KEY = ''homeTasks''"

definition HISTORY_KEY :: string where
  "HISTORY_KEY = ''taskHistory''"

record history_entry =
  entry_location :: string
  entry_lastCompleted :: isodate

type_synonym history = "string \<rightharpoonup> history_entry"

record task_states =
  states_date :: string
  states_tasks :: "string \<rightharpoonup> bool"

record store =
  db :: bool
  taskHistory :: "history option"
  taskStates :: "string \<rightharpoonup> task_states"
  localStorage :: "string \<rightharpoonup> string"
  checkboxes :: "string \<rightharpoonup> bool"

datatype error = SyntaxError

text \<open>\<open>saved ? JSON.parse(saved) : {}\<close>, outside any \<open>try\<close>: a missing item and the empty
  string give the empty history, a text that does not parse throws.\<close>

definition local_history :: "(string \<Rightarrow> history option) \<Rightarrow> store \<Rightarrow> error + history" where
  "local_history parse st =
     (case localStorage st HISTORY_KEY of
        None \<Rightarrow> Inr Map.empty
      | Some saved \<Rightarrow>
          if saved = [] then Inr Map.empty
          else (case parse saved of None \<Rightarrow> Inl SyntaxError | Some h \<Rightarrow> Inr h))"

definition getTaskHistory ::
  "(string \<Rightarrow> history option) \<Rightarrow> bool \<Rightarrow> store \<Rightarrow> error + history" where
  "getTaskHistory parse get_ok st =
     (if db st then
        (if get_ok then Inr (case taskHistory st of Some h \<Rightarrow> h | None \<Rightarrow> Map.empty)
         else local_history parse st)
      else local_history parse st)"

text \<open>The loop \<open>Object.keys(history).forEach\<close> that deletes the old entries.\<close>

definition pruneHistory :: "date \<Rightarrow> history \<Rightarrow> history" where
  "pruneHistory twelveWeeksAgo h =
     (\<lambda>key. case h key of
        None \<Rightarrow> None
      | Some e \<Rightarrow>
          (let completedDate = parseDate (entry_lastCompleted e)
           in if completedDate < twelveWeeksAgo then None else Some e))"

text \<open>The history that \<open>recordTaskCompletion\<close> writes, from the one it has read.\<close>

definition completedHistory ::
  "zone \<Rightarrow> date \<Rightarrow> string \<Rightarrow> string \<Rightarrow> history \<Rightarrow> history" where
  "completedHistory z now taskName taskLocation h =
     (let today = toISODate now;
          h' = h(taskName \<mapsto> \<lparr>entry_location = taskLocation, entry_lastCompleted = today\<rparr>);
          twelveWeeksAgo = addDays z now (- (12 * 7))
      in pruneHistory twelveWeeksAgo h')"

definition saveHistory :: "(history \<Rightarrow> string) \<Rightarrow> bool \<Rightarrow> store \<Rightarrow> history \<Rightarrow> store" where
  "saveHistory stringify set_ok st h =
     (if db st then
        (if set_ok then st\<lparr>taskHistory := Some h\<rparr>
         else st\<lparr>localStorage := (localStorage st)(HISTORY_KEY \<mapsto> stringify h)\<rparr>)
      else st\<lparr>localStorage := (localStorage st)(HISTORY_KEY \<mapsto> stringify h)\<rparr>)"

definition recordTaskCompletion ::
  "zone \<Rightarrow> (string \<Rightarrow> history option) \<Rightarrow> (history \<Rightarrow> string) \<Rightarrow> bool \<Rightarrow> bool \<Rightarrow> date
     \<Rightarrow> store \<Rightarrow> string \<Rightarrow> string \<Rightarrow> error + store" where
  "recordTaskCompletion z parse stringify get_ok set_ok now st taskName taskLocation =
     (case getTaskHistory parse get_ok st of
        Inl e \<Rightarrow> Inl e
      | Inr h \<Rightarrow> Inr (saveHistory stringify set_ok st
                        (completedHistory z now taskName taskLocation h)))"

text \<open>\<open>Object.keys(data.tasks).forEach\<close>: each saved state is applied to the checkbox
  with that id, when the page has one.\<close>

definition applyStates :: "(string \<rightharpoonup> bool) \<Rightarrow> store \<Rightarrow> store" where
  "applyStates tasks st =
     st\<lparr>checkboxes := (\<lambda>taskId.
          case checkboxes st taskId of
            None \<Rightarrow> None
          | Some c \<Rightarrow> (case tasks taskId of None \<Rightarrow> Some c | Some v \<Rightarrow> Some v))\<rparr>"

text \<open>The two reads of \<open>localStorage\<close> in \<open>loadTaskStates\<close>. Both run \<open>JSON.parse\<close> inside
  \<open>try\<close>: a text that does not parse is logged and the state is left as it is. Only the
  branch without Firestore removes the item of another day.\<close>

definition loadLocalStates ::
  "(string \<Rightarrow> task_states option) \<Rightarrow> bool \<Rightarrow> string \<Rightarrow> store \<Rightarrow> error + store" where
  "loadLocalStates parse remove_old today st =
     (case localStorage st STORAGE_KEY of
        None \<Rightarrow> Inr st
      | Some savedData \<Rightarrow>
          if savedData = [] then Inr st
          else (case (case parse savedData of None \<Rightarrow> Inl SyntaxError | Some d \<Rightarrow> Inr d) of
                  Inl e \<Rightarrow> Inr st
                | Inr d \<Rightarrow>
                    if states_date d = today then Inr (applyStates (states_tasks d) st)
                    else if remove_old
                      then Inr (st\<lparr>localStorage := (localStorage st)(STORAGE_KEY := None)\<rparr>)
                    else Inr st))"

definition loadTaskStates ::
  "(string \<Rightarrow> task_states option) \<Rightarrow> bool \<Rightarrow> string \<Rightarrow> store \<Rightarrow> error + store" where
  "loadTaskStates parse get_ok today st =
     (if db st then
        (if get_ok then
           (case taskStates st today of
              None \<Rightarrow> Inr st
            | Some d \<Rightarrow> Inr (applyStates (states_tasks d) st))
         else loadLocalStates parse False today st)
      else loadLocalStates parse True today st)"

definition saveTaskStates :: "(task_states \<Rightarrow> string) \<Rightarrow> bool \<Rightarrow> string \<Rightarrow> store \<Rightarrow> store" where
  "saveTaskStates stringify set_ok today st =
     (let taskStates' = checkboxes st;
          d = \<lparr>states_date = today, states_tasks = taskStates'\<rparr>
      in if db st then
           (if set_ok then st\<lparr>taskStates := (taskStates st)(today \<mapsto> d)\<rparr>
            else st\<lparr>localStorage := (localStorage st)(STORAGE_KEY \<mapsto> stringify d)\<rparr>)
         else st\<lparr>localStorage := (localStorage st)(STORAGE_KEY \<mapsto> stringify d)\<rparr>)"

section \<open>A schedule, a clock and a date format for the examples\<close>

text \<open>
  ``Wipe counters'' is a daily task that is also written in the rotation; ``Vacuum'' is
  in the rotation on the Mondays of week 1 and week 7 only; ``Clean oven'' is there
  once. In \<open>mop_schedule\<close> ``Mop floors'' is in the rotation five times. In
  \<open>misspelt_schedule\<close> the day key of ``Vacuum'' is not one of the seven names.
  \<open>monday_week1\<close> is Monday 2024-01-01 at 09:00 UTC, \<open>monday_afternoon\<close> the same day at
  14:00 UTC, \<open>saturday_week1\<close> Saturday 2024-01-06 at 09:00 UTC, \<open>sunday_clocks_change\<close>
  Sunday 2024-03-31 at 09:00 UTC, the day British Summer Time begins,
  \<open>april_morning\<close> Wednesday 2024-04-10 at 09:00 UTC and \<open>april_night\<close> the same day at
  23:30 UTC.
\<close>

definition wipe_counters :: task where
  "wipe_counters = \<lparr>name = ''Wipe counters'', location = ''Kitchen'', minutes = Some 5,
     how_often = ''Daily''\<rparr>"

definition vacuum :: task where
  "vacuum = \<lparr>name = ''Vacuum'', location = ''Living Room'', minutes = Some 20,
     how_often = ''Every 6 weeks''\<rparr>"

definition clean_oven :: task where
  "clean_oven = \<lparr>name = ''Clean oven'', location = ''Kitchen'', minutes = None,
     how_often = ''Every 12 weeks''\<rparr>"

definition example_schedule :: schedule where
  "example_schedule = \<lparr>daily_tasks = [wipe_counters],
     twelve_week_schedule =
       [(''week_1'', [(''Monday'', [vacuum]), (''Tuesday'', [wipe_counters])]),
        (''week_3'', [(''Wednesday'', [clean_oven])]),
        (''week_7'', [(''Monday'', [vacuum])])]\<rparr>"




definition monday_week1 :: date where
  "monday_week1 = 19723 * 86400000 + 9 * 3600000"



definition sunday_clocks_change :: date where
  "sunday_clocks_change = 19813 * 86400000 + 9 * 3600000"



text \<open>
  A rendering of dates in the manner of \<open>toLocaleDateString('en-GB', options)\<close>, used
  where an example needs a concrete format: the civil date of the local day, as
  \<open>2 Jan\<close>, \<open>2 Jan 2024\<close> or \<open>Tuesday\<close>.
\<close>

definition civil :: "int \<Rightarrow> int \<times> int \<times> int" where
  "civil days =
     (let z = days + 719468;
          era = z div 146097;
          doe = z mod 146097;
          yoe = (doe - doe div 1460 + doe div 36524 - doe div 146096) div 365;
          doy = doe - (365 * yoe + yoe div 4 - yoe div 100);
          mp = (5 * doy + 2) div 153;
          d = doy - (153 * mp + 2) div 5 + 1;
          m = (if mp < 10 then mp + 3 else mp - 9);
          y = yoe + era * 400 + (if m \<le> 2 then 1 else 0)
      in (y, m, d))"

definition monthNames :: "string list" where
  "monthNames = [''Jan'', ''Feb'', ''Mar'', ''Apr'', ''May'', ''Jun'', ''Jul'', ''Aug'',
     ''Sep'', ''Oct'', ''Nov'', ''Dec'']"

definition en_GB :: "zone \<Rightarrow> date_options \<Rightarrow> date \<Rightarrow> string" where
  "en_GB z opts dt =
     (case civil (LocalTime z dt div MS_PER_DAY) of
        (y, m, d) \<Rightarrow>
          (case opts of
             MonthDay \<Rightarrow> decimal (nat d) @ '' '' @ monthNames ! nat (m - 1)
           | MonthDayYear \<Rightarrow>
               decimal (nat d) @ '' '' @ monthNames ! nat (m - 1) @ '' '' @ decimal (nat y)
           | WeekdayLong \<Rightarrow> daysOfWeek ! nat (getDay z dt)))"




definition corrupt_store :: store where
  "corrupt_store = \<lparr>db = False, taskHistory = None, taskStates = Map.empty,
     localStorage = [''taskHistory'' \<mapsto> ''{not json'', ''homeTasks'' \<mapsto> ''{not json''],
     checkboxes = [''daily-0'' \<mapsto> True]\<rparr>"

definition parse_history_example :: "string \<Rightarrow> history option" where
  "parse_history_example s = (if s = ''{}'' then Some Map.empty else None)"

definition parse_states_example :: "string \<Rightarrow> task_states option" where
  "parse_states_example s =
     (if s = ''{}'' then Some \<lparr>states_date = [], states_tasks = Map.empty\<rparr> else None)"

definition stringify_example :: "history \<Rightarrow> string" where
  "stringify_example h = ''{}''"

section \<open>The cycle clock is periodic on each side of the reference date\<close>

lemma js_rem_nonneg: "0 \<le> a \<Longrightarrow> 0 < b \<Longrightarrow> js_rem a b = a mod b"
  by (cases "a = 0") (simp_all add: js_rem_def)

lemma week_after_reference:
  assumes "REFERENCE_DATE \<le> d"
  shows "getCurrentWeekInCycle d = ((d - REFERENCE_DATE) div 604800000) mod 12 + 1"
proof -
  have "0 \<le> (d - REFERENCE_DATE) div 604800000"
    using assms by simp
  then show ?thesis
    using assms by (simp add: getCurrentWeekInCycle_def CYCLE_LENGTH_WEEKS_def js_rem_nonneg)
qed

lemma week_before_reference:
  assumes "d \<le> REFERENCE_DATE"
  shows "getCurrentWeekInCycle d = ((REFERENCE_DATE - d) div 604800000) mod 12 + 1"
proof -
  have "0 \<le> (REFERENCE_DATE - d) div 604800000"
    using assms by simp
  moreover have "\<bar>d - REFERENCE_DATE\<bar> = REFERENCE_DATE - d"
    using assms by simp
  ultimately show ?thesis
    by (simp add: getCurrentWeekInCycle_def CYCLE_LENGTH_WEEKS_def js_rem_nonneg)
qed

lemma twelve_weeks_shift:
  "((x + 84 * MS_PER_DAY) div 604800000) mod 12 = (x div 604800000) mod (12::int)"
proof -
  have "x + 84 * MS_PER_DAY = x + 12 * 604800000"
    by (simp add: MS_PER_DAY_def)
  then have "(x + 84 * MS_PER_DAY) div 604800000 = x div 604800000 + 12"
    by simp
  then show ?thesis by simp
qed

text \<open>
  C2, as amended. The week of the cycle is the same 84 days (84 times 24 hours) later
  for every date at or after the reference date, and the same 84 days earlier for every
  date at or before it (hence also 84 days earlier for every date at least 84 days after
  the reference, and 84 days later for every date at least 84 days before it). Across
  the reference date the absolute value mirrors the cycle and the equality is lost.
\<close>

theorem getCurrentWeekInCycle_periodic_one_side:
  "(REFERENCE_DATE \<le> d \<longrightarrow>
      getCurrentWeekInCycle (d + 84 * MS_PER_DAY) = getCurrentWeekInCycle d) \<and>
   (d \<le> REFERENCE_DATE \<longrightarrow>
      getCurrentWeekInCycle (d - 84 * MS_PER_DAY) = getCurrentWeekInCycle d)"
proof (intro conjI impI)
  assume after: "REFERENCE_DATE \<le> d"
  have "REFERENCE_DATE \<le> d + 84 * MS_PER_DAY"
    using after by (simp add: MS_PER_DAY_def)
  then have "getCurrentWeekInCycle (d + 84 * MS_PER_DAY)
      = ((d + 84 * MS_PER_DAY - REFERENCE_DATE) div 604800000) mod 12 + 1"
    by (rule week_after_reference)
  also have "d + 84 * MS_PER_DAY - REFERENCE_DATE = (d - REFERENCE_DATE) + 84 * MS_PER_DAY"
    by simp
  also have "(((d - REFERENCE_DATE) + 84 * MS_PER_DAY) div 604800000) mod 12 + 1
      = ((d - REFERENCE_DATE) div 604800000) mod 12 + 1"
    by (simp only: twelve_weeks_shift)
  also have "\<dots> = getCurrentWeekInCycle d"
    using after by (simp only: week_after_reference)
  finally show "getCurrentWeekInCycle (d + 84 * MS_PER_DAY) = getCurrentWeekInCycle d" .
next
  assume before: "d \<le> REFERENCE_DATE"
  have "d - 84 * MS_PER_DAY \<le> REFERENCE_DATE"
    using before by (simp add: MS_PER_DAY_def)
  then have "getCurrentWeekInCycle (d - 84 * MS_PER_DAY)
      = ((REFERENCE_DATE - (d - 84 * MS_PER_DAY)) div 604800000) mod 12 + 1"
    by (rule week_before_reference)
  also have "REFERENCE_DATE - (d - 84 * MS_PER_DAY) = (REFERENCE_DATE - d) + 84 * MS_PER_DAY"
    by simp
  also have "(((REFERENCE_DATE - d) + 84 * MS_PER_DAY) div 604800000) mod 12 + 1
      = ((REFERENCE_DATE - d) div 604800000) mod 12 + 1"
    by (simp only: twelve_weeks_shift)
  also have "\<dots> = getCurrentWeekInCycle d"
    using before by (simp only: week_before_reference)
  finally show "getCurrentWeekInCycle (d - 84 * MS_PER_DAY) = getCurrentWeekInCycle d" .
qed

theorem getCurrentWeekInCycle_periodic_one_side_witness:
  "REFERENCE_DATE \<le> REFERENCE_DATE + 10 * MS_PER_DAY \<and>
   getCurrentWeekInCycle (REFERENCE_DATE + 10 * MS_PER_DAY + 84 * MS_PER_DAY)
     = getCurrentWeekInCycle (REFERENCE_DATE + 10 * MS_PER_DAY) \<and>
   REFERENCE_DATE - 10 * MS_PER_DAY \<le> REFERENCE_DATE \<and>
   getCurrentWeekInCycle (REFERENCE_DATE - 10 * MS_PER_DAY - 84 * MS_PER_DAY)
     = getCurrentWeekInCycle (REFERENCE_DATE - 10 * MS_PER_DAY)"
proof -
  have a: "REFERENCE_DATE \<le> REFERENCE_DATE + 10 * MS_PER_DAY"
    by (simp add: MS_PER_DAY_def)
  have b: "REFERENCE_DATE - 10 * MS_PER_DAY \<le> REFERENCE_DATE"
    by (simp add: MS_PER_DAY_def)
  note after = getCurrentWeekInCycle_periodic_one_side
    [of "REFERENCE_DATE + 10 * MS_PER_DAY", THEN conjunct1, THEN mp, OF a]
  note before = getCurrentWeekInCycle_periodic_one_side
    [of "REFERENCE_DATE - 10 * MS_PER_DAY", THEN conjunct2, THEN mp, OF b]
  from a after b before show ?thesis by (intro conjI)
qed

text \<open>
  C2 as stated fails: the day after the reference date is in week 1 of the cycle, and
  the date 84 days before it, 83 days before the reference date, is in week 12.
\<close>

theorem getCurrentWeekInCycle_not_periodic_across_reference:
  "getCurrentWeekInCycle (REFERENCE_DATE + 1 * MS_PER_DAY) = 1 \<and>
   getCurrentWeekInCycle (REFERENCE_DATE + 1 * MS_PER_DAY - 84 * MS_PER_DAY) = 12 \<and>
   getCurrentWeekInCycle (REFERENCE_DATE + 1 * MS_PER_DAY - 84 * MS_PER_DAY)
     \<noteq> getCurrentWeekInCycle (REFERENCE_DATE + 1 * MS_PER_DAY)"
  by (simp add: getCurrentWeekInCycle_def REFERENCE_DATE_def MS_PER_DAY_def
      CYCLE_LENGTH_WEEKS_def js_rem_def)

section \<open>Dates in a zone at a fixed offset\<close>

lemma addDays_fixed: "addDays (fixed_zone tz) d k = d + k * MS_PER_DAY"
  by (simp add: addDays_def UTC_def LocalTime_def fixed_zone_def)

lemma setHours0_fixed: "setHours0 (fixed_zone tz) d = d - (d + tz) mod MS_PER_DAY"
  by (simp add: setHours0_def UTC_def LocalTime_def fixed_zone_def Let_def)

lemma getDay_fixed: "getDay (fixed_zone tz) d = ((d + tz) div MS_PER_DAY + 4) mod 7"
  by (simp add: getDay_def LocalTime_def fixed_zone_def)


lemma setHours0_addDays_fixed:
  "setHours0 (fixed_zone tz) (addDays (fixed_zone tz) d k)
     = addDays (fixed_zone tz) (setHours0 (fixed_zone tz) d) k"
proof -
  have "d + k * MS_PER_DAY + tz = (d + tz) + k * MS_PER_DAY"
    by simp
  then have "(d + k * MS_PER_DAY + tz) mod MS_PER_DAY = (d + tz) mod MS_PER_DAY"
    by (simp only: mod_mult_self1)
  then show ?thesis
    by (simp add: setHours0_fixed addDays_fixed)
qed

section \<open>The occurrence index\<close>

lemma some_iff: "some (\<lambda>t. name t = n) ts \<longleftrightarrow> (\<exists>t\<in>set ts. name t = n)"
  by (simp add: some_def list_ex_iff)

lemma in_set_case_option:
  "x \<in> set (case m of None \<Rightarrow> [] | Some y \<Rightarrow> f y) \<longleftrightarrow> (\<exists>y. m = Some y \<and> x \<in> set (f y))"
  by (cases m) auto

lemma in_set_concat_map:
  "x \<in> set (concat (map f xs)) \<longleftrightarrow> (\<exists>y\<in>set xs. x \<in> set (f y))"
  by auto

lemma in_week_occurrences:
  "occ \<in> set (week_occurrences n w wk) \<longleftrightarrow>
     (\<exists>d ts. occ = Weekly w d (indexOf daysOfWeek d) \<and> d \<in> fst ` set wk \<and>
        map_of wk d = Some ts \<and> (\<exists>t\<in>set ts. name t = n))"
proof -
  have "occ \<in> set (week_occurrences n w wk) \<longleftrightarrow>
     (\<exists>d\<in>fst ` set wk. \<exists>ts. map_of wk d = Some ts \<and>
        occ \<in> set (if some (\<lambda>t. name t = n) ts
                    then [Weekly w d (indexOf daysOfWeek d)] else []))"
    unfolding week_occurrences_def Let_def in_set_concat_map in_set_case_option
    by simp
  also have "\<dots> \<longleftrightarrow> (\<exists>d ts. occ = Weekly w d (indexOf daysOfWeek d) \<and> d \<in> fst ` set wk \<and>
        map_of wk d = Some ts \<and> (\<exists>t\<in>set ts. name t = n))"
    unfolding some_iff by (auto split: if_splits)
  finally show ?thesis .
qed

lemma findTaskOccurrences_daily:
  "\<exists>t\<in>set (daily_tasks sch). name t = n \<Longrightarrow> findTaskOccurrences (Some sch) n = [Daily]"
  by (simp add: findTaskOccurrences_def some_iff)

lemma in_findTaskOccurrences_weekly:
  assumes "\<not> (\<exists>t\<in>set (daily_tasks sch). name t = n)"
  shows "occ \<in> set (findTaskOccurrences (Some sch) n) \<longleftrightarrow>
     (\<exists>w wk. 1 \<le> w \<and> w \<le> 12 \<and>
        map_of (twelve_week_schedule sch) (weekKey w) = Some wk \<and>
        occ \<in> set (week_occurrences n w wk))"
proof -
  have "findTaskOccurrences (Some sch) n = concat (map (\<lambda>weekNum.
                     case map_of (twelve_week_schedule sch) (weekKey weekNum) of
                       None \<Rightarrow> []
                     | Some wk \<Rightarrow> week_occurrences n weekNum wk)
                   [1..12])"
    using assms by (simp add: findTaskOccurrences_def some_iff)
  then have "occ \<in> set (findTaskOccurrences (Some sch) n) \<longleftrightarrow>
     (\<exists>w\<in>{1..12}. occ \<in> set (case map_of (twelve_week_schedule sch) (weekKey w) of
                       None \<Rightarrow> []
                     | Some wk \<Rightarrow> week_occurrences n w wk))"
    by simp
  also have "\<dots> \<longleftrightarrow> (\<exists>w wk. 1 \<le> w \<and> w \<le> 12 \<and>
        map_of (twelve_week_schedule sch) (weekKey w) = Some wk \<and>
        occ \<in> set (week_occurrences n w wk))"
    unfolding in_set_case_option by auto
  finally show ?thesis .
qed

lemma findTaskOccurrences_absent:
  assumes "\<not> (\<exists>t\<in>set (daily_tasks sch). name t = n)"
    and "\<forall>wk \<in> snd ` set (twelve_week_schedule sch). \<forall>ts \<in> snd ` set wk.
           \<not> (\<exists>t\<in>set ts. name t = n)"
  shows "findTaskOccurrences (Some sch) n = []"
proof -
  have "occ \<notin> set (findTaskOccurrences (Some sch) n)" for occ
  proof
    assume "occ \<in> set (findTaskOccurrences (Some sch) n)"
    then obtain w wk d ts where wk: "map_of (twelve_week_schedule sch) (weekKey w) = Some wk"
      and ts: "map_of wk d = Some ts" and t: "\<exists>t\<in>set ts. name t = n"
      unfolding in_findTaskOccurrences_weekly [OF assms(1)] in_week_occurrences by blast
    from wk have "wk \<in> snd ` set (twelve_week_schedule sch)"
      by (metis map_of_SomeD image_eqI snd_conv)
    moreover from ts have "ts \<in> snd ` set wk"
      by (metis map_of_SomeD image_eqI snd_conv)
    ultimately show False using assms(2) t by blast
  qed
  then show ?thesis by (cases "findTaskOccurrences (Some sch) n") auto
qed


text \<open>
  C5. With a schedule loaded, a name that is the name of a daily task has the single
  occurrence \<open>Daily\<close> and no weekly one, whatever the rotation holds; a name of no
  daily task and of no task of the rotation has no occurrence; and for a name of no daily
  task, the occurrences are exactly the slots (week 1 to 12, day key of that week)
  whose task list has a task with that very name.
\<close>

theorem findTaskOccurrences_daily_precedence:
  "((\<exists>t\<in>set (daily_tasks sch). name t = taskName) \<longrightarrow>
      findTaskOccurrences (Some sch) taskName = [Daily]) \<and>
   (\<not> (\<exists>t\<in>set (daily_tasks sch). name t = taskName) \<and>
    (\<forall>wk \<in> snd ` set (twelve_week_schedule sch). \<forall>ts \<in> snd ` set wk.
       \<not> (\<exists>t\<in>set ts. name t = taskName)) \<longrightarrow>
      findTaskOccurrences (Some sch) taskName = []) \<and>
   (\<not> (\<exists>t\<in>set (daily_tasks sch). name t = taskName) \<longrightarrow>
      (\<forall>occ. occ \<in> set (findTaskOccurrences (Some sch) taskName) \<longleftrightarrow>
         (\<exists>w d wk ts. occ = Weekly w d (indexOf daysOfWeek d) \<and> 1 \<le> w \<and> w \<le> 12 \<and>
            map_of (twelve_week_schedule sch) (weekKey w) = Some wk \<and>
            d \<in> fst ` set wk \<and> map_of wk d = Some ts \<and>
            (\<exists>t\<in>set ts. name t = taskName))))"
proof (intro conjI impI allI)
  assume "\<exists>t\<in>set (daily_tasks sch). name t = taskName"
  then show "findTaskOccurrences (Some sch) taskName = [Daily]"
    by (rule findTaskOccurrences_daily)
next
  assume "\<not> (\<exists>t\<in>set (daily_tasks sch). name t = taskName) \<and>
    (\<forall>wk \<in> snd ` set (twelve_week_schedule sch). \<forall>ts \<in> snd ` set wk.
       \<not> (\<exists>t\<in>set ts. name t = taskName))"
  then show "findTaskOccurrences (Some sch) taskName = []"
    by (intro findTaskOccurrences_absent) blast+
next
  fix occ
  assume nd: "\<not> (\<exists>t\<in>set (daily_tasks sch). name t = taskName)"
  show "occ \<in> set (findTaskOccurrences (Some sch) taskName) \<longleftrightarrow>
         (\<exists>w d wk ts. occ = Weekly w d (indexOf daysOfWeek d) \<and> 1 \<le> w \<and> w \<le> 12 \<and>
            map_of (twelve_week_schedule sch) (weekKey w) = Some wk \<and>
            d \<in> fst ` set wk \<and> map_of wk d = Some ts \<and>
            (\<exists>t\<in>set ts. name t = taskName))"
    unfolding in_findTaskOccurrences_weekly [OF nd] in_week_occurrences by blast
qed

text \<open>The example schedule: a daily name that collides with the rotation, an absent
  name, and a name of the rotation.\<close>

lemma example_daily: "\<exists>t\<in>set (daily_tasks example_schedule). name t = ''Wipe counters''"
  by (simp add: example_schedule_def wipe_counters_def)

lemma example_collision:
  "\<exists>wk \<in> snd ` set (twelve_week_schedule example_schedule). \<exists>ts \<in> snd ` set wk.
     \<exists>t\<in>set ts. name t = ''Wipe counters''"
  by (simp add: example_schedule_def wipe_counters_def vacuum_def clean_oven_def)

lemma example_absent:
  "\<not> (\<exists>t\<in>set (daily_tasks example_schedule). name t = ''Dust shelves'') \<and>
    (\<forall>wk \<in> snd ` set (twelve_week_schedule example_schedule). \<forall>ts \<in> snd ` set wk.
       \<not> (\<exists>t\<in>set ts. name t = ''Dust shelves''))"
  by (simp add: example_schedule_def wipe_counters_def vacuum_def clean_oven_def)

lemma example_not_daily:
  "\<not> (\<exists>t\<in>set (daily_tasks example_schedule). name t = ''Vacuum'')"
  "\<not> (\<exists>t\<in>set (daily_tasks example_schedule). name t = ''Clean oven'')"
  by (simp_all add: example_schedule_def wipe_counters_def)

lemma example_week7:
  "\<exists>w d wk ts. Weekly 7 ''Monday'' 1 = Weekly w d (indexOf daysOfWeek d) \<and> 1 \<le> w \<and> w \<le> 12 \<and>
     map_of (twelve_week_schedule example_schedule) (weekKey w) = Some wk \<and>
     d \<in> fst ` set wk \<and> map_of wk d = Some ts \<and> (\<exists>t\<in>set ts. name t = ''Vacuum'')"
proof -
  have "Weekly 7 ''Monday'' 1 = Weekly 7 ''Monday'' (indexOf daysOfWeek ''Monday'')"
    by (simp add: indexOf_def daysOfWeek_def)
  moreover have "map_of (twelve_week_schedule example_schedule) (weekKey 7)
      = Some [(''Monday'', [vacuum])]"
    by (simp add: example_schedule_def weekKey_def decimal.simps digit_char_def)
  moreover have "\<exists>t\<in>set [vacuum]. name t = ''Vacuum''"
    by (simp add: vacuum_def)
  ultimately show ?thesis
    by (intro exI [of _ 7] exI [of _ "''Monday''"] exI [of _ "[(''Monday'', [vacuum])]"]
        exI [of _ "[vacuum]"]) simp
qed

theorem findTaskOccurrences_daily_precedence_witness:
  "(\<exists>t\<in>set (daily_tasks example_schedule). name t = ''Wipe counters'') \<and>
   (\<exists>wk \<in> snd ` set (twelve_week_schedule example_schedule). \<exists>ts \<in> snd ` set wk.
     \<exists>t\<in>set ts. name t = ''Wipe counters'') \<and>
   findTaskOccurrences (Some example_schedule) ''Wipe counters'' = [Daily] \<and>
   \<not> (\<exists>t\<in>set (daily_tasks example_schedule). name t = ''Dust shelves'') \<and>
   findTaskOccurrences (Some example_schedule) ''Dust shelves'' = [] \<and>
   \<not> (\<exists>t\<in>set (daily_tasks example_schedule). name t = ''Vacuum'') \<and>
   Weekly 7 ''Monday'' 1 \<in> set (findTaskOccurrences (Some example_schedule) ''Vacuum'')"
proof -
  note daily = findTaskOccurrences_daily_precedence
    [of example_schedule "''Wipe counters''", THEN conjunct1, THEN mp, OF example_daily]
  note absent = findTaskOccurrences_daily_precedence
    [of example_schedule "''Dust shelves''", THEN conjunct2, THEN conjunct1, THEN mp,
     OF example_absent]
  note weekly = findTaskOccurrences_daily_precedence
    [of example_schedule "''Vacuum''", THEN conjunct2, THEN conjunct2, THEN mp,
     OF example_not_daily(1), THEN spec, THEN iffD2, OF example_week7]
  from example_daily example_collision daily example_absent [THEN conjunct1]
    absent example_not_daily(1) weekly
  show ?thesis by (intro conjI)
qed

section \<open>Tasks without occurrences and daily tasks\<close>

text \<open>
  C6. When the task has no occurrence, the result is not overdue, and its text is
  ``As needed'' when a last completion is recorded and ``Not scheduled'' when none is;
  so a task that is neither daily nor in the rotation, with no history, is
  ``Not scheduled'' and not overdue.
\<close>

theorem getNextScheduledDate_unscheduled:
  "(findTaskOccurrences sched (task_name t) = [] \<longrightarrow>
      getNextScheduledDate fmt z sched now t =
        \<lparr>text' = (if lastCompleted t \<noteq> None then ''As needed'' else ''Not scheduled''),
         overdue = False\<rparr>) \<and>
   (\<not> (\<exists>t'\<in>set (daily_tasks sch). name t' = task_name t) \<and>
    (\<forall>wk \<in> snd ` set (twelve_week_schedule sch). \<forall>ts \<in> snd ` set wk.
       \<not> (\<exists>t'\<in>set ts. name t' = task_name t)) \<and> lastCompleted t = None \<longrightarrow>
      getNextScheduledDate fmt z (Some sch) now t =
        \<lparr>text' = ''Not scheduled'', overdue = False\<rparr>)"
proof (intro conjI impI)
  assume "findTaskOccurrences sched (task_name t) = []"
  then show "getNextScheduledDate fmt z sched now t =
        \<lparr>text' = (if lastCompleted t \<noteq> None then ''As needed'' else ''Not scheduled''),
         overdue = False\<rparr>"
    by (simp add: getNextScheduledDate_def)
next
  assume a: "\<not> (\<exists>t'\<in>set (daily_tasks sch). name t' = task_name t) \<and>
    (\<forall>wk \<in> snd ` set (twelve_week_schedule sch). \<forall>ts \<in> snd ` set wk.
       \<not> (\<exists>t'\<in>set ts. name t' = task_name t)) \<and> lastCompleted t = None"
  then have "findTaskOccurrences (Some sch) (task_name t) = []"
    by (intro findTaskOccurrences_absent) blast+
  with a show "getNextScheduledDate fmt z (Some sch) now t =
        \<lparr>text' = ''Not scheduled'', overdue = False\<rparr>"
    by (simp add: getNextScheduledDate_def)
qed

theorem getNextScheduledDate_unscheduled_witness:
  "findTaskOccurrences (Some example_schedule) ''Dust shelves'' = [] \<and>
   getNextScheduledDate (en_GB (fixed_zone 0)) (fixed_zone 0) (Some example_schedule) monday_week1
     \<lparr>task_name = ''Dust shelves'', howOften = ''Monthly'', lastCompleted = Some 19700\<rparr>
     = \<lparr>text' = ''As needed'', overdue = False\<rparr> \<and>
   getNextScheduledDate (en_GB (fixed_zone 0)) (fixed_zone 0) (Some example_schedule) monday_week1
     \<lparr>task_name = ''Dust shelves'', howOften = ''Monthly'', lastCompleted = None\<rparr>
     = \<lparr>text' = ''Not scheduled'', overdue = False\<rparr>"
proof -
  have none: "findTaskOccurrences (Some example_schedule) ''Dust shelves'' = []"
    using example_absent by (intro findTaskOccurrences_absent) blast+
  have "getNextScheduledDate (en_GB (fixed_zone 0)) (fixed_zone 0) (Some example_schedule) monday_week1
     \<lparr>task_name = ''Dust shelves'', howOften = ''Monthly'', lastCompleted = Some 19700\<rparr>
     = \<lparr>text' = ''As needed'', overdue = False\<rparr>"
    using none getNextScheduledDate_unscheduled [where sched = "Some example_schedule"
      and t = "\<lparr>task_name = ''Dust shelves'', howOften = ''Monthly'',
                lastCompleted = Some 19700\<rparr>"
      and fmt = "en_GB (fixed_zone 0)" and z = "fixed_zone 0" and now = monday_week1]
    by simp
  moreover have "getNextScheduledDate (en_GB (fixed_zone 0)) (fixed_zone 0) (Some example_schedule) monday_week1
     \<lparr>task_name = ''Dust shelves'', howOften = ''Monthly'', lastCompleted = None\<rparr>
     = \<lparr>text' = ''Not scheduled'', overdue = False\<rparr>"
    using example_absent getNextScheduledDate_unscheduled [where sch = example_schedule
      and t = "\<lparr>task_name = ''Dust shelves'', howOften = ''Monthly'', lastCompleted = None\<rparr>"
      and fmt = "en_GB (fixed_zone 0)" and z = "fixed_zone 0" and now = monday_week1]
    by simp
  ultimately show ?thesis using none by simp
qed

text \<open>
  C9. For a task with a daily occurrence the result is ``Tomorrow (\<dots>)'' with the day
  and month of the date one local calendar day after the local midnight of today, and
  it is not overdue, whatever the last completion is. In a zone at a fixed offset that
  date is the local midnight of \<open>now\<close> plus one day.
\<close>

theorem getNextScheduledDate_daily:
  assumes "\<exists>t'\<in>set (daily_tasks sch). name t' = task_name t"
  shows "getNextScheduledDate fmt z (Some sch) now t =
      \<lparr>text' = ''Tomorrow ('' @ fmt MonthDay (addDays z (setHours0 z now) 1) @ '')'',
       overdue = False\<rparr> \<and>
    addDays (fixed_zone tz) (setHours0 (fixed_zone tz) now) 1
      = setHours0 (fixed_zone tz) (addDays (fixed_zone tz) now 1)"
proof -
  have occ: "findTaskOccurrences (Some sch) (task_name t) = [Daily]"
    using assms by (rule findTaskOccurrences_daily)
  have "getNextScheduledDate fmt z (Some sch) now t =
      \<lparr>text' = ''Tomorrow ('' @ fmt MonthDay (addDays z (setHours0 z now) 1) @ '')'',
       overdue = False\<rparr>"
    by (simp add: getNextScheduledDate_def occ)
  moreover have "addDays (fixed_zone tz) (setHours0 (fixed_zone tz) now) 1
      = setHours0 (fixed_zone tz) (addDays (fixed_zone tz) now 1)"
    by (simp only: setHours0_addDays_fixed)
  ultimately show ?thesis by (rule conjI)
qed

lemma tomorrow_example:
  "en_GB (fixed_zone 0) MonthDay
     (addDays (fixed_zone 0) (setHours0 (fixed_zone 0) monday_week1) 1) = ''2 Jan''"
  "en_GB london MonthDay (addDays london (setHours0 london sunday_clocks_change) 1)
     = ''1 Apr''"
  by code_simp+

theorem getNextScheduledDate_daily_witness:
  "(\<exists>t'\<in>set (daily_tasks example_schedule). name t' = ''Wipe counters'') \<and>
   getNextScheduledDate (en_GB (fixed_zone 0)) (fixed_zone 0) (Some example_schedule)
       monday_week1
       \<lparr>task_name = ''Wipe counters'', howOften = ''Daily'', lastCompleted = None\<rparr>
     = \<lparr>text' = ''Tomorrow (2 Jan)'', overdue = False\<rparr> \<and>
   getNextScheduledDate (en_GB london) london (Some example_schedule) sunday_clocks_change
       \<lparr>task_name = ''Wipe counters'', howOften = ''Daily'', lastCompleted = Some 19800\<rparr>
     = \<lparr>text' = ''Tomorrow (1 Apr)'', overdue = False\<rparr>"
proof -
  have a: "\<exists>t'\<in>set (daily_tasks example_schedule).
      name t' = task_name \<lparr>task_name = ''Wipe counters'', howOften = ''Daily'',
                             lastCompleted = lc\<rparr>" for lc
    using example_daily by simp
  note utc = getNextScheduledDate_daily [where fmt = "en_GB (fixed_zone 0)"
      and z = "fixed_zone 0" and now = monday_week1, OF a, THEN conjunct1]
  note bst = getNextScheduledDate_daily [where fmt = "en_GB london"
      and z = london and now = sunday_clocks_change, OF a, THEN conjunct1]
  from example_daily utc [of None] bst [of "Some 19800"] show ?thesis
    by (simp add: tomorrow_example)
qed

section \<open>Weekly tasks: the overdue flag\<close>














section \<open>Weekly tasks: the next date\<close>












text \<open>
  C1. ``Vacuum'' is in the rotation on the Mondays of week 1 and week 7 only, it has no
  completion, and \<open>now\<close> is Monday 2024-01-01 at 09:00 in UTC, in week 1 of the cycle.
  The date computed for the occurrence of week 1 is today, which \<open>checkDate <= today\<close>
  moves to the next Monday: the result is ``Monday (8 Jan 2024)'', seven days ahead and
  in week 2 of the cycle, not ``Due today''. It is not overdue.
\<close>

theorem vacuum_on_monday_of_week_1:
  "getDay (fixed_zone 0) monday_week1 = 1 \<and>
   getCurrentWeekInCycle monday_week1 = 1 \<and>
   findTaskOccurrences (Some example_schedule) ''Vacuum''
     = [Weekly 1 ''Monday'' 1, Weekly 7 ''Monday'' 1] \<and>
   Math_round ((12 * 7) / real (length [Weekly 1 ''Monday'' 1, Weekly 7 ''Monday'' 1])) = 42 \<and>
   nextOccurrences (fixed_zone 0) monday_week1 [Weekly 1 ''Monday'' 1, Weekly 7 ''Monday'' 1]
     = [setHours0 (fixed_zone 0) monday_week1 + 7 * MS_PER_DAY,
        setHours0 (fixed_zone 0) monday_week1 + 49 * MS_PER_DAY] \<and>
   diffDays (fixed_zone 0) monday_week1 (setHours0 (fixed_zone 0) monday_week1 + 7 * MS_PER_DAY)
     = 7 \<and>
   getCurrentWeekInCycle (setHours0 (fixed_zone 0) monday_week1 + 7 * MS_PER_DAY) = 2 \<and>
   getNextScheduledDate (en_GB (fixed_zone 0)) (fixed_zone 0) (Some example_schedule)
       monday_week1
       \<lparr>task_name = ''Vacuum'', howOften = ''Every 6 weeks'', lastCompleted = None\<rparr>
     = \<lparr>text' = ''Monday (8 Jan 2024)'', overdue = False\<rparr> \<and>
   text' (getNextScheduledDate (en_GB (fixed_zone 0)) (fixed_zone 0) (Some example_schedule)
       monday_week1
       \<lparr>task_name = ''Vacuum'', howOften = ''Every 6 weeks'', lastCompleted = None\<rparr>)
     \<noteq> ''Due today''"
  by code_simp

section \<open>The history store\<close>



















section \<open>Stored text that does not parse\<close>

text \<open>\<open>loadTaskStates\<close> always returns; \<open>getTaskHistory\<close> throws exactly when it reads
  \<open>localStorage\<close> and the text there is not empty and does not parse.\<close>

lemma loadLocalStates_returns:
  "\<exists>st'. loadLocalStates parse remove_old today st = Inr st'"
  by (simp add: loadLocalStates_def split: option.splits)

lemma loadTaskStates_returns: "\<exists>st'. loadTaskStates parse get_ok today st = Inr st'"
  using loadLocalStates_returns [of parse _ today st]
  by (simp add: loadTaskStates_def split: option.splits)

lemma local_history_throws:
  "local_history parse st = Inl e \<longleftrightarrow>
     (\<exists>saved. localStorage st HISTORY_KEY = Some saved \<and> saved \<noteq> [] \<and> parse saved = None)"
  by (cases e) (auto simp: local_history_def split: option.splits)

text \<open>
  C7. With the text \<open>{not json\<close> in \<open>localStorage\<close> under both keys, \<open>getTaskHistory\<close> throws
  the \<open>SyntaxError\<close> of \<open>JSON.parse\<close>, without Firestore and also when the read from
  Firestore fails, and \<open>recordTaskCompletion\<close> throws with it; \<open>loadTaskStates\<close>, which
  parses inside \<open>try\<close>, returns with the state unchanged.
\<close>

theorem getTaskHistory_throws_on_corrupt_text:
  "localStorage corrupt_store HISTORY_KEY = Some ''{not json'' \<and>
   parse_history_example ''{not json'' = None \<and>
   getTaskHistory parse_history_example get_ok corrupt_store = Inl SyntaxError \<and>
   getTaskHistory parse_history_example False (corrupt_store\<lparr>db := True\<rparr>) = Inl SyntaxError \<and>
   recordTaskCompletion z parse_history_example stringify_example get_ok set_ok monday_week1
     corrupt_store ''Vacuum'' ''Living Room'' = Inl SyntaxError \<and>
   localStorage corrupt_store STORAGE_KEY = Some ''{not json'' \<and>
   parse_states_example ''{not json'' = None \<and>
   loadTaskStates parse_states_example get_ok today corrupt_store = Inr corrupt_store"
  by (simp add: corrupt_store_def HISTORY_KEY_def STORAGE_KEY_def parse_history_example_def
      parse_states_example_def getTaskHistory_def local_history_def recordTaskCompletion_def
      loadTaskStates_def loadLocalStates_def)

section \<open>The task-state store\<close>

text \<open>
  C10. Saving the state of the checkboxes twice in a row, on the same day and with the
  same outcome of the remote write, leaves the store as saving once does: the document
  of the day (or the item of \<open>localStorage\<close>) is replaced by the date and the current
  state of the checkboxes, which saving does not change. Whatever the outcomes of the
  two remote writes, the document of the day and the item of \<open>localStorage\<close> hold
  after the second call either what they held before the first or that same replacement.
\<close>

theorem saveTaskStates_idempotent:
  "saveTaskStates stringify set_ok today (saveTaskStates stringify set_ok today st)
     = saveTaskStates stringify set_ok today st \<and>
   taskStates (saveTaskStates stringify set_ok today st) today
     = (if db st \<and> set_ok
        then Some \<lparr>states_date = today, states_tasks = checkboxes st\<rparr>
        else taskStates st today) \<and>
   localStorage (saveTaskStates stringify set_ok today st) STORAGE_KEY
     = (if db st \<and> set_ok then localStorage st STORAGE_KEY
        else Some (stringify \<lparr>states_date = today, states_tasks = checkboxes st\<rparr>)) \<and>
   checkboxes (saveTaskStates stringify set_ok today st) = checkboxes st \<and>
   taskStates (saveTaskStates stringify ok2 today (saveTaskStates stringify ok1 today st)) today
     = (if db st \<and> (ok1 \<or> ok2)
        then Some \<lparr>states_date = today, states_tasks = checkboxes st\<rparr>
        else taskStates st today) \<and>
   localStorage (saveTaskStates stringify ok2 today (saveTaskStates stringify ok1 today st))
       STORAGE_KEY
     = (if db st \<and> ok1 \<and> ok2 then localStorage st STORAGE_KEY
        else Some (stringify \<lparr>states_date = today, states_tasks = checkboxes st\<rparr>))"
  by (simp add: saveTaskStates_def Let_def)

end
